theory Spec2Isabelle
  imports Main
begin

section \<open>The sleepy package (core.go)\<close>

text \<open>
  The package is one file: four capability interfaces, the type \<open>API\<close> with its route
  table, the per-request dispatcher \<open>requestHandler\<close>, and the two operations
  \<open>AddResource\<close> and \<open>Start\<close>. Everything of the Go standard library that the file calls
  (the request, the response writer, \<open>json.Marshal\<close>, \<open>http.ServeMux\<close>,
  \<open>http.ListenAndServe\<close>) is modelled at the interface the file uses, and each such
  model says so.
\<close>

subsection \<open>Constants\<close>

definition GET :: string where "GET = ''GET''"
definition POST :: string where "POST = ''POST''"
definition PUT :: string where "PUT = ''PUT''"
definition DELETE :: string where "DELETE = ''DELETE''"

text \<open>
  The status codes of \<open>net/http\<close> that the dispatcher writes by itself, and
  \<open>StatusOK\<close>, which a response has when no status was written.
\<close>

definition StatusOK :: int where "StatusOK = 200"
definition StatusBadRequest :: int where "StatusBadRequest = 400"
definition StatusMethodNotAllowed :: int where "StatusMethodNotAllowed = 405"
definition StatusInternalServerError :: int where "StatusInternalServerError = 500"

subsection \<open>Values exchanged with the standard library\<close>

text \<open>\<open>url.Values\<close> is \<open>map[string][]string\<close>; a byte slice is a list of characters.\<close>

type_synonym Values = "string \<rightharpoonup> string list"
type_synonym bytes = string

text \<open>
  Go's \<open>error\<close>. \<open>errorString\<close> is a value made by \<open>errors.New\<close> in this package;
  \<open>LibraryError\<close> is an error that a call into the standard library returned. Go compares
  errors by identity and \<open>errors.New\<close> allocates a fresh value, so the two never coincide:
  they are two constructors. A nil error is \<open>None\<close> of \<open>error option\<close>.
\<close>

datatype error = errorString string | LibraryError string

text \<open>
  The panics that the standard library raises in the calls made by this package, by
  their cause: \<open>HandleFunc\<close> on the empty pattern, on a pattern already registered, and
  on a pattern it refuses for another reason; \<open>WriteHeader\<close> on a status code outside
  100..999. A panic ends the call that raised it.
\<close>

datatype panic =
    invalid_pattern
  | multiple_registrations string
  | refused_pattern string
  | invalid_WriteHeader_code int

text \<open>
  \<open>*http.Request\<close>, as the dispatcher observes it: the field \<open>Method\<close>, the error that
  the call \<open>request.ParseForm()\<close> returns, and the field \<open>Form\<close> as that call leaves it.
\<close>

record Request =
  Method :: string
  ParseForm :: "error option"
  Form :: Values

text \<open>
  \<open>http.ResponseWriter\<close> is an interface; the dispatcher calls two of its methods. The
  writer is modelled by the calls made on it, in order.
\<close>

datatype call = WriteHeaderCall int | WriteCall bytes

type_synonym ResponseWriter = "call list"

definition WriteHeader :: "int \<Rightarrow> ResponseWriter \<Rightarrow> ResponseWriter" where
  "WriteHeader code rw = rw @ [WriteHeaderCall code]"

definition Write :: "bytes \<Rightarrow> ResponseWriter \<Rightarrow> ResponseWriter" where
  "Write content rw = rw @ [WriteCall content]"

text \<open>
  What the calls amount to on the writer that \<open>net/http\<close> passes to a handler (the
  type \<open>response\<close> of its server). The writer keeps whether the header was written,
  the status and the body sent so far.
\<close>

record response =
  wroteHeader :: bool
  status :: int
  body :: bytes

definition new_response :: response where
  "new_response = \<lparr>wroteHeader = False, status = 0, body = []\<rparr>"

text \<open>
  \<open>WriteHeader\<close> of that writer: a call after the header was written is superfluous
  and ignored; a code outside 100..999 panics; a code 1xx other than 101 is sent as an
  interim response and the header counts as not yet written; any other code becomes
  the status.
\<close>

definition response_WriteHeader :: "int \<Rightarrow> response \<Rightarrow> panic + response" where
  "response_WriteHeader code w =
     (if wroteHeader w then Inr w
      else if code < 100 \<or> code > 999 then Inl (invalid_WriteHeader_code code)
      else if 100 \<le> code \<and> code \<le> 199 \<and> code \<noteq> 101 then Inr w
      else Inr (w\<lparr>wroteHeader := True, status := code\<rparr>))"

text \<open>No body is sent with a status 1xx, 204 or 304.\<close>

definition bodyAllowedForStatus :: "int \<Rightarrow> bool" where
  "bodyAllowedForStatus code =
     (if 100 \<le> code \<and> code \<le> 199 then False
      else if code = 204 then False
      else if code = 304 then False
      else True)"

text \<open>
  \<open>Write\<close> of that writer: it first writes the header with \<open>StatusOK\<close> when none was
  written, and appends the data to the body when the status allows a body; otherwise
  the data is dropped (the call returns \<open>ErrBodyNotAllowed\<close>, which the dispatcher does
  not look at).
\<close>

definition response_Write :: "bytes \<Rightarrow> response \<Rightarrow> response" where
  "response_Write content w =
     (let w1 = (if wroteHeader w then w else w\<lparr>wroteHeader := True, status := StatusOK\<rparr>)
      in if bodyAllowedForStatus (status w1) then w1\<lparr>body := body w1 @ content\<rparr> else w1)"

fun serve_calls :: "ResponseWriter \<Rightarrow> response \<Rightarrow> panic + response" where
  "serve_calls [] w = Inr w"
| "serve_calls (WriteHeaderCall code # rw) w =
     (case response_WriteHeader code w of
        Inl p \<Rightarrow> Inl p
      | Inr w' \<Rightarrow> serve_calls rw w')"
| "serve_calls (WriteCall content # rw) w = serve_calls rw (response_Write content w)"

text \<open>
  The response of a handler that made the calls and returned: when it wrote no header,
  the server writes it with \<open>StatusOK\<close>. When a call panicked there is no response
  (the server drops the connection), which is \<open>None\<close>.
\<close>

definition response_of :: "ResponseWriter \<Rightarrow> response option" where
  "response_of rw =
     (case serve_calls rw new_response of
        Inl p \<Rightarrow> None
      | Inr w \<Rightarrow> Some (if wroteHeader w then w else w\<lparr>wroteHeader := True, status := StatusOK\<rparr>))"

definition response_status :: "ResponseWriter \<Rightarrow> int option" where
  "response_status rw = map_option status (response_of rw)"

definition response_body :: "ResponseWriter \<Rightarrow> bytes option" where
  "response_body rw = map_option body (response_of rw)"

subsection \<open>Resources and their capabilities\<close>

text \<open>
  A capability method has the Go type \<open>func(url.Values) (int, interface{})\<close>. It is a
  method of the resource and may read and change the resource (and anything else it
  reaches): \<open>'s\<close> is that state, passed in and returned. \<open>'d\<close> stands for
  \<open>interface{}\<close>, the data returned.
\<close>

type_synonym ('s, 'd) handler = "Values \<Rightarrow> 's \<Rightarrow> (int \<times> 'd) \<times> 's"

text \<open>
  A resource is any value (\<open>interface{}\<close>); all the dispatcher asks of it is which of the
  four interfaces \<open>GetSupported\<close>, \<open>PostSupported\<close>, \<open>PutSupported\<close>, \<open>DeleteSupported\<close>
  it implements. A field is \<open>Some\<close> method when the type assertion to the interface
  succeeds, and \<open>None\<close> when it fails.
\<close>

record ('s, 'd) Resource =
  Get :: "('s, 'd) handler option"
  Post :: "('s, 'd) handler option"
  Put :: "('s, 'd) handler option"
  Delete :: "('s, 'd) handler option"

subsection \<open>The dispatcher\<close>

type_synonym 's HandlerFunc = "ResponseWriter \<Rightarrow> Request \<Rightarrow> 's \<Rightarrow> ResponseWriter \<times> 's"

text \<open>
  \<open>requestHandler\<close> (core.go, lines 57 to 100). \<open>Marshal\<close> is \<open>json.Marshal\<close>, a
  parameter: it returns the encoding and an error, as in Go. The variable \<open>handler\<close>
  stays nil (\<open>None\<close>) unless a case of the switch assigns it.
\<close>

definition requestHandler ::
  "('d \<Rightarrow> bytes \<times> error option) \<Rightarrow> ('s, 'd) Resource \<Rightarrow> 's HandlerFunc" where
  "requestHandler Marshal resource rw request s =
     (if ParseForm request \<noteq> None then (WriteHeader StatusBadRequest rw, s)
      else
        let handler =
              (if Method request = GET then Get resource
               else if Method request = POST then Post resource
               else if Method request = PUT then Put resource
               else if Method request = DELETE then Delete resource
               else None)
        in case handler of
             None \<Rightarrow> (WriteHeader StatusMethodNotAllowed rw, s)
           | Some h \<Rightarrow>
               let ((code, data), s') = h (Form request) s;
                   (content, err) = Marshal data;
                   rw1 = (if err \<noteq> None then WriteHeader StatusInternalServerError rw else rw);
                   rw2 = WriteHeader code rw1;
                   rw3 = Write content rw2
               in (rw3, s'))"

subsection \<open>The route table\<close>

text \<open>
  \<open>http.ServeMux\<close> of the standard library, reduced to what \<open>AddResource\<close> uses: the
  table from pattern to handler, and \<open>HandleFunc\<close>. In every version of the library
  \<open>HandleFunc\<close> panics on the empty pattern and on a pattern that is already registered.
  Which other patterns it refuses depends on the version (from Go 1.22 on: a pattern
  without a slash, a malformed method or wildcard, a pattern that conflicts with a
  registered one); that is the parameter \<open>refuses\<close>, asked with the registered patterns
  and the new one. A pattern that is not refused is added to the table.
\<close>

type_synonym 's ServeMux = "string \<rightharpoonup> 's HandlerFunc"

type_synonym refusal = "string set \<Rightarrow> string \<Rightarrow> bool"

definition NewServeMux :: "'s ServeMux" where
  "NewServeMux = Map.empty"

definition HandleFunc ::
  "refusal \<Rightarrow> 's ServeMux \<Rightarrow> string \<Rightarrow> 's HandlerFunc \<Rightarrow> panic + 's ServeMux" where
  "HandleFunc refuses m pattern handler =
     (if pattern = [] then Inl invalid_pattern
      else if m pattern \<noteq> None then Inl (multiple_registrations pattern)
      else if refuses (dom m) pattern then Inl (refused_pattern pattern)
      else Inr (m(pattern \<mapsto> handler)))"

subsection \<open>The API\<close>

text \<open>The struct \<open>API\<close>: the pointer \<open>mux\<close> is nil (\<open>None\<close>) or a route table.\<close>

record 's API =
  mux :: "'s ServeMux option"

definition NewAPI :: "'s API" where
  "NewAPI = \<lparr>mux = None\<rparr>"

text \<open>
  \<open>AddResource\<close> (lines 104 to 109) works on the API in place. It returns nothing; the
  model returns the panic, if \<open>HandleFunc\<close> raised one, and the API as the call leaves it:
  the assignment to \<open>api.mux\<close> comes before the call of \<open>HandleFunc\<close> and stays when that
  call panics.
\<close>

definition AddResource ::
  "refusal \<Rightarrow> ('d \<Rightarrow> bytes \<times> error option) \<Rightarrow> 's API \<Rightarrow> ('s, 'd) Resource \<Rightarrow> string \<Rightarrow>
   panic option \<times> 's API" where
  "AddResource refuses Marshal api resource path =
     (let m = (case mux api of None \<Rightarrow> NewServeMux | Some m \<Rightarrow> m)
      in case HandleFunc refuses m path (requestHandler Marshal resource) of
           Inl p \<Rightarrow> (Some p, api\<lparr>mux := Some m\<rparr>)
         | Inr m' \<Rightarrow> (None, api\<lparr>mux := Some m'\<rparr>))"

text \<open>
  \<open>fmt.Sprintf(":%d", port)\<close>: a colon and the decimal numeral of the port, with its
  sign when the port is negative. \<open>digit\<close> is only applied to numbers below ten.
\<close>

definition digit :: "nat \<Rightarrow> char" where
  "digit n = ''0123456789'' ! n"

fun decimal :: "nat \<Rightarrow> string" where
  "decimal n = (if n < 10 then [digit n] else decimal (n div 10) @ [digit (n mod 10)])"

declare decimal.simps [simp del]

definition Sprintf_port :: "int \<Rightarrow> string" where
  "Sprintf_port port =
     CHR '':'' # (if port < 0 then CHR ''-'' # decimal (nat (- port)) else decimal (nat port))"

text \<open>
  \<open>Start\<close> (lines 112 to 118). \<open>ListenAndServe\<close> is \<open>http.ListenAndServe\<close>, a parameter:
  it acts on the network \<open>'n\<close> (it opens the listening socket and serves) and either
  returns a non-nil error, given by its message, or never returns, which is \<open>None\<close>.
  So \<open>Start\<close> returns \<open>Some\<close> error, or \<open>None\<close> when it never returns.
\<close>

definition Start ::
  "(string \<Rightarrow> 's ServeMux \<Rightarrow> 'n \<Rightarrow> string option \<times> 'n) \<Rightarrow> 's API \<Rightarrow> int \<Rightarrow> 'n \<Rightarrow> error option \<times> 'n" where
  "Start ListenAndServe api port net =
     (case mux api of
        None \<Rightarrow> (Some (errorString ''You must add at least one resource to this API.''), net)
      | Some m \<Rightarrow>
          (let portString = Sprintf_port port;
               (err, net') = ListenAndServe portString m net
           in (map_option LibraryError err, net')))"

subsection \<open>Vocabulary of the properties\<close>

text \<open>
  The four capabilities, the verb each one answers to, and the method a resource has for
  a capability, if it implements it.
\<close>

datatype capability = GetSupported | PostSupported | PutSupported | DeleteSupported

fun verb :: "capability \<Rightarrow> string" where
  "verb GetSupported = GET"
| "verb PostSupported = POST"
| "verb PutSupported = PUT"
| "verb DeleteSupported = DELETE"

fun method_of :: "('s, 'd) Resource \<Rightarrow> capability \<Rightarrow> ('s, 'd) handler option" where
  "method_of resource GetSupported = Get resource"
| "method_of resource PostSupported = Post resource"
| "method_of resource PutSupported = Put resource"
| "method_of resource DeleteSupported = Delete resource"

text \<open>
  To count invocations, a resource is wrapped so that each of its capability methods
  does what it did and appends its own name and the fields it received to a log kept
  beside the resource's state. The wrapped resource implements exactly the capabilities
  of the original. \<open>invocations\<close> is the log after the dispatcher has handled one
  request, starting from the empty log.
\<close>

type_synonym invocation = "capability \<times> Values"

definition recording ::
  "capability \<Rightarrow> ('s, 'd) handler \<Rightarrow> (invocation list \<times> 's, 'd) handler" where
  "recording c h form ls =
     (let (result, s') = h form (snd ls) in (result, (fst ls @ [(c, form)], s')))"

definition recorded :: "('s, 'd) Resource \<Rightarrow> (invocation list \<times> 's, 'd) Resource" where
  "recorded resource =
     \<lparr>Get = map_option (recording GetSupported) (Get resource),
      Post = map_option (recording PostSupported) (Post resource),
      Put = map_option (recording PutSupported) (Put resource),
      Delete = map_option (recording DeleteSupported) (Delete resource)\<rparr>"

definition invocations ::
  "('d \<Rightarrow> bytes \<times> error option) \<Rightarrow> ('s, 'd) Resource \<Rightarrow> Request \<Rightarrow> 's \<Rightarrow> invocation list" where
  "invocations Marshal resource request s =
     fst (snd (requestHandler Marshal (recorded resource) [] request ([], s)))"

text \<open>
  A capability method is pure when its result does not depend on the state and it
  leaves the state as it found it.
\<close>

definition pure_handler :: "('s, 'd) handler \<Rightarrow> bool" where
  "pure_handler h \<longleftrightarrow> (\<forall>form s s'. fst (h form s) = fst (h form s') \<and> snd (h form s) = s)"

text \<open>The handler that the route table of an API holds for a pattern.\<close>

definition registered_handler :: "'s API \<Rightarrow> string \<Rightarrow> 's HandlerFunc option" where
  "registered_handler api pattern = (case mux api of None \<Rightarrow> None | Some m \<Rightarrow> m pattern)"

text \<open>The error of \<open>Start\<close> on an API without route table.\<close>

definition no_routes_error :: error where
  "no_routes_error = errorString ''You must add at least one resource to this API.''"

text \<open>
  The calls a program can make on an API, and their effect on the API and the network.
  \<open>Start\<close> assigns no field of the API. A call of \<open>AddResource\<close> that panics leaves the
  API as the panic found it, and the program may recover and go on.
\<close>

datatype ('s, 'd) operation = CallAddResource "('s, 'd) Resource" string | CallStart int

fun is_AddResource :: "('s, 'd) operation \<Rightarrow> bool" where
  "is_AddResource (CallAddResource _ _) = True"
| "is_AddResource (CallStart _) = False"

fun step ::
  "refusal \<Rightarrow> ('d \<Rightarrow> bytes \<times> error option) \<Rightarrow> (string \<Rightarrow> 's ServeMux \<Rightarrow> 'n \<Rightarrow> string option \<times> 'n) \<Rightarrow>
   's API \<times> 'n \<Rightarrow> ('s, 'd) operation \<Rightarrow> 's API \<times> 'n" where
  "step refuses Marshal ListenAndServe (api, net) (CallAddResource resource path) =
     (snd (AddResource refuses Marshal api resource path), net)"
| "step refuses Marshal ListenAndServe (api, net) (CallStart port) =
     (api, snd (Start ListenAndServe api port net))"

definition run ::
  "refusal \<Rightarrow> ('d \<Rightarrow> bytes \<times> error option) \<Rightarrow> (string \<Rightarrow> 's ServeMux \<Rightarrow> 'n \<Rightarrow> string option \<times> 'n) \<Rightarrow>
   's API \<times> 'n \<Rightarrow> ('s, 'd) operation list \<Rightarrow> 's API \<times> 'n" where
  "run refuses Marshal ListenAndServe = foldl (step refuses Marshal ListenAndServe)"

text \<open>
  Whether every call of \<open>AddResource\<close> in a sequence of calls returns normally, from a
  given API on.
\<close>

fun returns_normally ::
  "refusal \<Rightarrow> ('d \<Rightarrow> bytes \<times> error option) \<Rightarrow> 's API \<Rightarrow> ('s, 'd) operation list \<Rightarrow> bool" where
  "returns_normally refuses Marshal api [] = True"
| "returns_normally refuses Marshal api (CallAddResource resource path # ops) =
     (fst (AddResource refuses Marshal api resource path) = None \<and>
      returns_normally refuses Marshal (snd (AddResource refuses Marshal api resource path)) ops)"
| "returns_normally refuses Marshal api (CallStart port # ops) = returns_normally refuses Marshal api ops"

subsection \<open>Examples\<close>

text \<open>
  Concrete resources, requests and collaborators, on which the properties below are
  also evaluated. The data of the examples is \<open>Some\<close> text, which encodes to itself, or
  \<open>None\<close>, a value that \<open>json.Marshal\<close> rejects (a cyclic structure, a channel). The state
  of the example resources is a counter.
\<close>

definition example_Marshal :: "string option \<Rightarrow> bytes \<times> error option" where
  "example_Marshal data =
     (case data of
        Some encoding \<Rightarrow> (encoding, None)
      | None \<Rightarrow> ([], Some (LibraryError ''json: unsupported value'')))"

text \<open>
  A route table that refuses nothing but the empty and the registered pattern, as
  \<open>ServeMux\<close> before Go 1.22. The examples register \<open>/items\<close> and \<open>/catalogue\<close>, which
  every version accepts when they are not yet registered, and the empty path.
\<close>

definition no_further_refusals :: refusal where
  "no_further_refusals registered pattern = False"

text \<open>A resource that implements only \<open>Get\<close> and counts the requests it has served.\<close>

definition items :: "(nat, string option) Resource" where
  "items =
     \<lparr>Get = Some (\<lambda>form served. ((200, Some ''{ok:true}''), Suc served)),
      Post = None, Put = None, Delete = None\<rparr>"

text \<open>A resource with two pure methods.\<close>

definition catalogue :: "(nat, string option) Resource" where
  "catalogue =
     \<lparr>Get = Some (\<lambda>form s. ((200, Some ''[]''), s)),
      Post = Some (\<lambda>form s. ((201, Some ''created''), s)),
      Put = None, Delete = None\<rparr>"

text \<open>A resource whose \<open>Get\<close> returns data that cannot be serialized.\<close>

definition cyclic :: "(nat, string option) Resource" where
  "cyclic =
     \<lparr>Get = Some (\<lambda>form s. ((200, None), s)), Post = None, Put = None, Delete = None\<rparr>"




definition get_items :: Request where
  "get_items = \<lparr>Method = ''GET'', ParseForm = None, Form = [''id'' \<mapsto> [''7'']]\<rparr>"

definition post_items :: Request where
  "post_items = \<lparr>Method = ''POST'', ParseForm = None, Form = [''name'' \<mapsto> [''tea'']]\<rparr>"

definition patch_items :: Request where
  "patch_items = \<lparr>Method = ''PATCH'', ParseForm = None, Form = Map.empty\<rparr>"

text \<open>Two requests with a query string that \<open>ParseForm\<close> rejects, such as \<open>?a=%zz\<close>.\<close>

definition patch_malformed :: Request where
  "patch_malformed =
     \<lparr>Method = ''PATCH'', ParseForm = Some (LibraryError ''invalid URL escape''),
      Form = Map.empty\<rparr>"

definition post_malformed :: Request where
  "post_malformed =
     \<lparr>Method = ''POST'', ParseForm = Some (LibraryError ''invalid URL escape''),
      Form = Map.empty\<rparr>"

text \<open>
  A transport whose port is taken: it records the address it was asked to listen on and
  returns the error.
\<close>

definition port_in_use ::
  "string \<Rightarrow> nat ServeMux \<Rightarrow> string list \<Rightarrow> string option \<times> string list" where
  "port_in_use addr m net = (Some ''bind: address already in use'', net @ [addr])"

section \<open>Properties\<close>

subsection \<open>Auxiliary facts\<close>

lemma Sprintf_port_example: "Sprintf_port 8080 = '':8080''"
  by (simp add: Sprintf_port_def digit_def decimal.simps [of 8080] decimal.simps [of 808]
      decimal.simps [of 80] decimal.simps [of 8])

lemma Sprintf_port_negative: "Sprintf_port (- 25) = '':-25''"
  by (simp add: Sprintf_port_def digit_def decimal.simps [of 25] decimal.simps [of 2])

text \<open>The response after the calls that the dispatcher makes.\<close>

lemma response_header_only:
  "200 \<le> code \<Longrightarrow> code \<le> 999 \<Longrightarrow>
   response_status [WriteHeaderCall code] = Some code \<and>
   response_body [WriteHeaderCall code] = Some []"
  by (simp add: response_status_def response_body_def response_of_def new_response_def
      response_WriteHeader_def)


lemma response_error_header_write:
  "response_status
     [WriteHeaderCall StatusInternalServerError, WriteHeaderCall code, WriteCall content] =
     Some StatusInternalServerError \<and>
   response_body
     [WriteHeaderCall StatusInternalServerError, WriteHeaderCall code, WriteCall content] =
     Some content"
  by (simp add: response_status_def response_body_def response_of_def new_response_def
      response_WriteHeader_def response_Write_def bodyAllowedForStatus_def
      StatusInternalServerError_def)

lemma response_bad_request:
  "response_status [WriteHeaderCall StatusBadRequest] = Some StatusBadRequest"
  "response_body [WriteHeaderCall StatusBadRequest] = Some []"
  using response_header_only [of StatusBadRequest] by (simp_all add: StatusBadRequest_def)

lemma response_method_not_allowed:
  "response_status [WriteHeaderCall StatusMethodNotAllowed] = Some StatusMethodNotAllowed"
  "response_body [WriteHeaderCall StatusMethodNotAllowed] = Some []"
  using response_header_only [of StatusMethodNotAllowed]
  by (simp_all add: StatusMethodNotAllowed_def)

lemma verb_distinct:
  "GET \<noteq> POST" "GET \<noteq> PUT" "GET \<noteq> DELETE" "POST \<noteq> PUT" "POST \<noteq> DELETE" "PUT \<noteq> DELETE"
  "POST \<noteq> GET" "PUT \<noteq> GET" "DELETE \<noteq> GET" "PUT \<noteq> POST" "DELETE \<noteq> POST" "DELETE \<noteq> PUT"
  by (simp_all add: GET_def POST_def PUT_def DELETE_def)

lemma verb_exists: "v \<in> {GET, POST, PUT, DELETE} \<longleftrightarrow> (\<exists>c. v = verb c)"
proof
  assume "v \<in> {GET, POST, PUT, DELETE}"
  then consider "v = verb GetSupported" | "v = verb PostSupported"
    | "v = verb PutSupported" | "v = verb DeleteSupported"
    by auto
  then show "\<exists>c. v = verb c" by cases blast+
next
  assume "\<exists>c. v = verb c"
  then obtain c where "v = verb c" by blast
  then show "v \<in> {GET, POST, PUT, DELETE}" by (cases c) simp_all
qed

text \<open>The switch of the dispatcher selects the method of the capability of the verb.\<close>

lemma selected_handler:
  "Method request = verb c \<Longrightarrow>
   (if Method request = GET then Get resource
    else if Method request = POST then Post resource
    else if Method request = PUT then Put resource
    else if Method request = DELETE then Delete resource
    else None) = method_of resource c"
  by (cases c) (simp_all add: verb_distinct)

text \<open>The three ways through the dispatcher.\<close>

lemma requestHandler_parse_error:
  "ParseForm request \<noteq> None \<Longrightarrow>
   requestHandler Marshal resource rw request s = (rw @ [WriteHeaderCall StatusBadRequest], s)"
  by (simp add: requestHandler_def WriteHeader_def)

lemma requestHandler_not_allowed:
  assumes "ParseForm request = None"
    and "Method request \<notin> {GET, POST, PUT, DELETE} \<or>
         (\<exists>c. Method request = verb c \<and> method_of resource c = None)"
  shows "requestHandler Marshal resource rw request s =
         (rw @ [WriteHeaderCall StatusMethodNotAllowed], s)"
  using assms(2)
proof
  assume "Method request \<notin> {GET, POST, PUT, DELETE}"
  with assms(1) show ?thesis
    by (simp add: requestHandler_def WriteHeader_def)
next
  assume "\<exists>c. Method request = verb c \<and> method_of resource c = None"
  then obtain c where c: "Method request = verb c" "method_of resource c = None"
    by blast
  show ?thesis
    unfolding requestHandler_def selected_handler [OF c(1)]
    using assms(1) c(2) by (simp add: WriteHeader_def)
qed

lemma requestHandler_invoke:
  assumes "ParseForm request = None"
    and "Method request = verb c"
    and "method_of resource c = Some h"
    and "h (Form request) s = ((code, data), s')"
    and "Marshal data = (content, err)"
  shows "requestHandler Marshal resource rw request s =
         (rw @ (if err \<noteq> None then [WriteHeaderCall StatusInternalServerError] else [])
             @ [WriteHeaderCall code, WriteCall content], s')"
  unfolding requestHandler_def selected_handler [OF assms(2)]
  using assms(1,3,4,5) by (simp add: WriteHeader_def Write_def)

text \<open>The same three ways, seen in the log of a recorded resource.\<close>

lemma method_of_recorded:
  "method_of (recorded resource) c = map_option (recording c) (method_of resource c)"
  by (cases c) (simp_all add: recorded_def)

lemma invocations_parse_error:
  "ParseForm request \<noteq> None \<Longrightarrow> invocations Marshal resource request s = []"
  by (simp add: invocations_def requestHandler_parse_error)

lemma invocations_not_allowed:
  assumes "ParseForm request = None"
    and "Method request \<notin> {GET, POST, PUT, DELETE} \<or>
         (\<exists>c. Method request = verb c \<and> method_of resource c = None)"
  shows "invocations Marshal resource request s = []"
proof -
  from assms(2) have "Method request \<notin> {GET, POST, PUT, DELETE} \<or>
      (\<exists>c. Method request = verb c \<and> method_of (recorded resource) c = None)"
    by (auto simp: method_of_recorded)
  from requestHandler_not_allowed [OF assms(1) this] show ?thesis
    by (simp add: invocations_def)
qed


text \<open>
  A recorded resource answers as the original does, and leaves the original's state as
  the original does: the log is the only difference.
\<close>

lemma recorded_transparent:
  "fst (requestHandler Marshal (recorded resource) rw request (log, s)) =
     fst (requestHandler Marshal resource rw request s)
   \<and> snd (snd (requestHandler Marshal (recorded resource) rw request (log, s))) =
     snd (requestHandler Marshal resource rw request s)"
  by (simp add: requestHandler_def recorded_def recording_def Let_def
      split: option.splits prod.splits)

text \<open>Registration.\<close>

lemma dom_registered_handler:
  "dom (registered_handler api) = (case mux api of None \<Rightarrow> {} | Some m \<Rightarrow> dom m)"
  by (auto simp: registered_handler_def dom_def split: option.splits)

lemma AddResource_binds:
  assumes "AddResource refuses Marshal api resource path = (None, api')"
  shows "registered_handler api' path = Some (requestHandler Marshal resource)"
  using assms
  by (auto simp: AddResource_def HandleFunc_def registered_handler_def Let_def
      split: if_splits option.splits)

lemma AddResource_ok_iff:
  "fst (AddResource refuses Marshal api resource path) = None \<longleftrightarrow>
   path \<noteq> [] \<and> registered_handler api path = None
   \<and> \<not> refuses (dom (registered_handler api)) path"
  by (auto simp: AddResource_def HandleFunc_def dom_registered_handler registered_handler_def
      NewServeMux_def Let_def split: if_splits option.splits)

lemma AddResource_panic_keeps:
  assumes "fst (AddResource refuses Marshal api resource path) \<noteq> None"
  shows "registered_handler (snd (AddResource refuses Marshal api resource path)) =
         registered_handler api"
  using assms
  by (auto simp: AddResource_def HandleFunc_def registered_handler_def NewServeMux_def Let_def
      fun_eq_iff split: if_splits option.splits)

lemma AddResource_registered_unchanged:
  assumes "registered_handler api path \<noteq> None"
  shows "snd (AddResource refuses Marshal api resource path) = api"
  using assms
  by (auto simp: AddResource_def HandleFunc_def registered_handler_def NewServeMux_def Let_def
      split: if_splits option.splits)

lemma registered_handler_NewAPI: "registered_handler NewAPI = Map.empty"
  by (simp add: fun_eq_iff registered_handler_def NewAPI_def)

lemma AddResource_ok_routes:
  assumes "fst (AddResource refuses Marshal api resource path) = None"
  shows "registered_handler (snd (AddResource refuses Marshal api resource path)) =
         (registered_handler api)(path \<mapsto> requestHandler Marshal resource)"
  using assms
  by (auto simp: AddResource_def HandleFunc_def registered_handler_def NewServeMux_def Let_def
      fun_eq_iff split: if_splits option.splits)

text \<open>The first registration of a path on a new API, in the examples.\<close>

lemma AddResource_example:
  "path \<noteq> [] \<Longrightarrow>
   AddResource no_further_refusals Marshal NewAPI resource path =
     (None, \<lparr>mux = Some [path \<mapsto> requestHandler Marshal resource]\<rparr>)"
  by (simp add: AddResource_def HandleFunc_def NewAPI_def NewServeMux_def
      no_further_refusals_def)

lemma AddResource_mux: "mux (snd (AddResource refuses Marshal api resource path)) \<noteq> None"
  by (simp add: AddResource_def Let_def split: sum.splits)

text \<open>The route table exists exactly when it existed before or \<open>AddResource\<close> was called.\<close>

lemma step_mux:
  "mux (fst (step refuses Marshal ListenAndServe st op)) = None \<longleftrightarrow>
   mux (fst st) = None \<and> \<not> is_AddResource op"
  by (cases st; cases op) (simp_all add: AddResource_mux)

lemma run_mux:
  "mux (fst (run refuses Marshal ListenAndServe st ops)) = None \<longleftrightarrow>
   mux (fst st) = None \<and> \<not> list_ex is_AddResource ops"
  unfolding run_def
proof (induction ops arbitrary: st)
  case Nil
  then show ?case by simp
next
  case (Cons op ops)
  show ?case by (simp add: Cons.IH step_mux)
qed

text \<open>
  When the calls of \<open>AddResource\<close> all returned normally, the table holds a route
  exactly when it held one before or \<open>AddResource\<close> was called.
\<close>

lemma run_routes:
  "returns_normally refuses Marshal api ops \<Longrightarrow>
   registered_handler (fst (run refuses Marshal ListenAndServe (api, net) ops)) = Map.empty \<longleftrightarrow>
   registered_handler api = Map.empty \<and> \<not> list_ex is_AddResource ops"
proof (induction ops arbitrary: api net)
  case Nil
  then show ?case by (simp add: run_def)
next
  case (Cons op ops)
  show ?case
  proof (cases op)
    case (CallAddResource resource path)
    with Cons.prems have ok: "fst (AddResource refuses Marshal api resource path) = None"
      and rest: "returns_normally refuses Marshal (snd (AddResource refuses Marshal api resource path)) ops"
      by simp_all
    have "registered_handler (snd (AddResource refuses Marshal api resource path)) \<noteq> Map.empty"
      by (simp add: AddResource_ok_routes [OF ok])
    with Cons.IH [OF rest, of net] CallAddResource show ?thesis
      by (simp add: run_def)
  next
    case (CallStart port)
    with Cons.prems have "returns_normally refuses Marshal api ops" by simp
    from Cons.IH [OF this, of "snd (Start ListenAndServe api port net)"] CallStart
    show ?thesis by (simp add: run_def)
  qed
qed

lemma Start_no_mux:
  "mux api = None \<Longrightarrow> Start ListenAndServe api port net = (Some no_routes_error, net)"
  by (simp add: Start_def no_routes_error_def)

lemma Start_mux:
  "mux api = Some m \<Longrightarrow>
   Start ListenAndServe api port net =
     (map_option LibraryError (fst (ListenAndServe (Sprintf_port port) m net)),
      snd (ListenAndServe (Sprintf_port port) m net))"
  by (simp add: Start_def Let_def split: prod.splits)

subsection \<open>Dispatch of a supported verb\<close>




subsection \<open>Form data that does not parse\<close>

text \<open>
  C2. A resource registered at a path, and a request whose form does not parse: the
  handler that the route table holds for the path writes the status 400 and nothing
  else, so the body is empty; no capability method of the resource is called and the
  state of the resource is as before.
\<close>

theorem parse_failure_bad_request:
  assumes "AddResource refuses Marshal api resource path = (None, api')"
    and "ParseForm request \<noteq> None"
  shows "\<exists>handler. registered_handler api' path = Some handler
       \<and> handler [] request s = ([WriteHeaderCall StatusBadRequest], s)
       \<and> response_status (fst (handler [] request s)) = Some StatusBadRequest
       \<and> response_body (fst (handler [] request s)) = Some []
       \<and> invocations Marshal resource request s = []"
  using AddResource_binds [OF assms(1)] assms(2)
  by (simp add: requestHandler_parse_error invocations_parse_error response_bad_request)

theorem parse_failure_bad_request_witness:
  "\<exists>handler.
     registered_handler \<lparr>mux = Some [''/items'' \<mapsto> requestHandler example_Marshal items]\<rparr>
       ''/items'' = Some handler
     \<and> handler [] post_malformed 3 = ([WriteHeaderCall 400], 3)
     \<and> response_status (fst (handler [] post_malformed 3)) = Some 400
     \<and> response_body (fst (handler [] post_malformed 3)) = Some []
     \<and> invocations example_Marshal items post_malformed 3 = []"
proof -
  have 1: "AddResource no_further_refusals example_Marshal NewAPI items ''/items'' =
           (None, \<lparr>mux = Some [''/items'' \<mapsto> requestHandler example_Marshal items]\<rparr>)"
    by (simp add: AddResource_example)
  have 2: "ParseForm post_malformed \<noteq> None"
    by (simp add: post_malformed_def)
  from parse_failure_bad_request [OF 1 2, of 3] show ?thesis
    by (simp add: StatusBadRequest_def)
qed

subsection \<open>Verbs without a capability\<close>

text \<open>
  C3, as amended. A request whose form parses, and whose verb is none of the four or
  is one of the four while the resource does not implement its capability: the
  dispatcher writes the status 405 and nothing else, so the body is empty; no
  capability method is called and the state of the resource is as before.
\<close>

theorem unsupported_verb_method_not_allowed:
  assumes "ParseForm request = None"
    and "Method request \<notin> {GET, POST, PUT, DELETE} \<or>
         (\<exists>c. Method request = verb c \<and> method_of resource c = None)"
  shows "requestHandler Marshal resource rw request s =
           (rw @ [WriteHeaderCall StatusMethodNotAllowed], s)
       \<and> response_status (fst (requestHandler Marshal resource [] request s)) =
           Some StatusMethodNotAllowed
       \<and> response_body (fst (requestHandler Marshal resource [] request s)) = Some []
       \<and> invocations Marshal resource request s = []"
  using requestHandler_not_allowed [OF assms] invocations_not_allowed [OF assms]
  by (simp add: response_method_not_allowed)

theorem unsupported_verb_method_not_allowed_witness:
  "requestHandler example_Marshal items [] patch_items 0 = ([WriteHeaderCall 405], 0)
   \<and> requestHandler example_Marshal items [] post_items 0 = ([WriteHeaderCall 405], 0)
   \<and> response_status (fst (requestHandler example_Marshal items [] post_items 0)) = Some 405
   \<and> response_body (fst (requestHandler example_Marshal items [] post_items 0)) = Some []
   \<and> invocations example_Marshal items post_items 0 = []"
proof -
  have 1: "ParseForm patch_items = None"
    by (simp add: patch_items_def)
  have 2: "Method patch_items \<notin> {GET, POST, PUT, DELETE} \<or>
           (\<exists>c. Method patch_items = verb c \<and> method_of items c = None)"
    by (simp add: patch_items_def GET_def POST_def PUT_def DELETE_def)
  have 3: "ParseForm post_items = None"
    by (simp add: post_items_def)
  have "Method post_items = verb PostSupported \<and> method_of items PostSupported = None"
    by (simp add: post_items_def POST_def items_def)
  then have 4: "Method post_items \<notin> {GET, POST, PUT, DELETE} \<or>
           (\<exists>c. Method post_items = verb c \<and> method_of items c = None)"
    by blast
  from unsupported_verb_method_not_allowed [OF 1 2, of example_Marshal "[]" 0]
    unsupported_verb_method_not_allowed [OF 3 4, of example_Marshal "[]" 0]
  show ?thesis by (auto simp: StatusMethodNotAllowed_def)
qed

text \<open>
  Without the condition on the form the statement fails: a \<open>PATCH\<close> and a \<open>POST\<close> to a
  resource that implements only \<open>Get\<close>, each with a query string that does not parse,
  are answered with 400.
\<close>

theorem unsupported_verb_unparsed_form_counterexample:
  "Method patch_malformed \<notin> {GET, POST, PUT, DELETE}
   \<and> response_status (fst (requestHandler example_Marshal items [] patch_malformed 0)) =
       Some StatusBadRequest
   \<and> response_status (fst (requestHandler example_Marshal items [] patch_malformed 0)) \<noteq>
       Some StatusMethodNotAllowed
   \<and> Method post_malformed = verb PostSupported \<and> method_of items PostSupported = None
   \<and> response_status (fst (requestHandler example_Marshal items [] post_malformed 0)) =
       Some StatusBadRequest
   \<and> response_status (fst (requestHandler example_Marshal items [] post_malformed 0)) \<noteq>
       Some StatusMethodNotAllowed"
  by (simp add: patch_malformed_def post_malformed_def items_def requestHandler_parse_error
      response_bad_request GET_def POST_def PUT_def DELETE_def)
    (simp add: StatusBadRequest_def StatusMethodNotAllowed_def)

subsection \<open>Data that does not serialize\<close>

text \<open>
  C4. When the capability method has returned a status and data, and \<open>json.Marshal\<close>
  returns an error for the data: the dispatcher calls \<open>WriteHeader\<close> with 500, then
  \<open>WriteHeader\<close> with the status of the method, then \<open>Write\<close> with the content that
  \<open>json.Marshal\<close> returned, in this order. On the writer the first status stands and
  the second call is superfluous: the response has status 500.
\<close>

theorem marshal_failure_writes:
  assumes "ParseForm request = None"
    and "Method request = verb c"
    and "method_of resource c = Some h"
    and "h (Form request) s = ((code, data), s')"
    and "Marshal data = (content, Some e)"
  shows "requestHandler Marshal resource rw request s =
           (rw @ [WriteHeaderCall StatusInternalServerError, WriteHeaderCall code,
                  WriteCall content], s')
       \<and> response_status (fst (requestHandler Marshal resource [] request s)) =
           Some StatusInternalServerError
       \<and> response_body (fst (requestHandler Marshal resource [] request s)) = Some content"
  using requestHandler_invoke [where h = h and Marshal = Marshal, OF assms(1,2,3,4,5)]
  by (simp add: response_error_header_write)

theorem marshal_failure_writes_witness:
  "requestHandler example_Marshal cyclic [] get_items 0 =
     ([WriteHeaderCall 500, WriteHeaderCall 200, WriteCall []], 0)
   \<and> response_status (fst (requestHandler example_Marshal cyclic [] get_items 0)) = Some 500
   \<and> response_body (fst (requestHandler example_Marshal cyclic [] get_items 0)) = Some []"
proof -
  let ?h = "\<lambda>(form :: Values) (s :: nat). ((200 :: int, None :: string option), s)"
  have 1: "ParseForm get_items = None"
    by (simp add: get_items_def)
  have 2: "Method get_items = verb GetSupported"
    by (simp add: get_items_def GET_def)
  have 3: "method_of cyclic GetSupported = Some ?h"
    by (simp add: cyclic_def)
  have 4: "?h (Form get_items) 0 = ((200, None), 0)"
    by simp
  have 5: "example_Marshal None = ([], Some (LibraryError ''json: unsupported value''))"
    by (simp add: example_Marshal_def)
  from marshal_failure_writes
    [where h = ?h and Marshal = example_Marshal and rw = "[]", OF 1 2 3 4 5]
  show ?thesis by (auto simp: StatusInternalServerError_def)
qed

subsection \<open>Starting an API\<close>

text \<open>
  C5, as amended. Take a new API and any calls of \<open>AddResource\<close> and \<open>Start\<close> on it.
  \<open>Start\<close> then returns the configuration error, with the network untouched
  (\<open>ListenAndServe\<close> is not called, no socket is opened), if and only if \<open>AddResource\<close>
  was never called. When \<open>AddResource\<close> was called, the API has a route table and
  \<open>Start\<close> is the call of \<open>ListenAndServe\<close> on the port's address and that table: it
  returns the error of the transport when the transport returns one, and does not
  return otherwise. When the calls of \<open>AddResource\<close> all returned normally,
  \<open>AddResource\<close> was never called exactly when no resource is registered.
\<close>

theorem Start_configuration_error:
  "(Start ListenAndServe (fst (run refuses Marshal Serve (NewAPI, start) ops)) port net =
      (Some no_routes_error, net)
    \<longleftrightarrow> \<not> list_ex is_AddResource ops)
   \<and> (list_ex is_AddResource ops \<longrightarrow>
       (\<exists>m. mux (fst (run refuses Marshal Serve (NewAPI, start) ops)) = Some m
         \<and> Start ListenAndServe (fst (run refuses Marshal Serve (NewAPI, start) ops)) port net =
             (map_option LibraryError (fst (ListenAndServe (Sprintf_port port) m net)),
              snd (ListenAndServe (Sprintf_port port) m net))))
   \<and> (returns_normally refuses Marshal NewAPI ops \<longrightarrow>
       (registered_handler (fst (run refuses Marshal Serve (NewAPI, start) ops)) = Map.empty
        \<longleftrightarrow> \<not> list_ex is_AddResource ops))"
proof -
  let ?api = "fst (run refuses Marshal Serve (NewAPI, start) ops)"
  have m: "mux ?api = None \<longleftrightarrow> \<not> list_ex is_AddResource ops"
    by (simp add: run_mux NewAPI_def)
  have r: "returns_normally refuses Marshal NewAPI ops \<longrightarrow>
       (registered_handler ?api = Map.empty \<longleftrightarrow> \<not> list_ex is_AddResource ops)"
    by (simp add: run_routes registered_handler_NewAPI)
  show ?thesis
  proof (cases "mux ?api")
    case None
    with m r Start_no_mux [OF None] show ?thesis by simp
  next
    case (Some m')
    have "fst (Start ListenAndServe ?api port net) \<noteq> Some no_routes_error"
      by (simp add: Start_mux [OF Some] no_routes_error_def)
    then have "Start ListenAndServe ?api port net \<noteq> (Some no_routes_error, net)"
      by auto
    with m r Some Start_mux [OF Some] show ?thesis by simp
  qed
qed

theorem Start_configuration_error_witness:
  "Start port_in_use
     (fst (run no_further_refusals example_Marshal port_in_use (NewAPI, []) [])) 8080 [] =
     (Some no_routes_error, [])
   \<and> Start port_in_use
       (fst (run no_further_refusals example_Marshal port_in_use (NewAPI, [])
         [CallAddResource items ''/items'']))
       8080 [] =
     (Some (LibraryError ''bind: address already in use''), [Sprintf_port 8080])
   \<and> registered_handler
       (fst (run no_further_refusals example_Marshal port_in_use (NewAPI, [])
         [CallAddResource items ''/items'']))
       \<noteq> Map.empty"
proof -
  let ?ops = "[CallAddResource items ''/items'']"
  let ?run = "run no_further_refusals example_Marshal port_in_use (NewAPI, [])"
  note inst = Start_configuration_error
    [where ListenAndServe = port_in_use and refuses = no_further_refusals
       and Marshal = example_Marshal and Serve = port_in_use and start = "[]"
       and port = 8080 and net = "[]"]
  have 1: "\<not> list_ex is_AddResource ([] :: (nat, string option) operation list)"
    by simp
  have 2: "list_ex is_AddResource ?ops"
    by simp
  have 3: "returns_normally no_further_refusals example_Marshal NewAPI ?ops"
    by (simp add: AddResource_example)
  from inst [where ops = "[]"] 1
  have a: "Start port_in_use (fst (?run [])) 8080 [] = (Some no_routes_error, [])"
    by blast
  from inst [where ops = ?ops] 2
  have "\<exists>m. Start port_in_use (fst (?run ?ops)) 8080 [] =
     (map_option LibraryError (fst (port_in_use (Sprintf_port 8080) m [])),
      snd (port_in_use (Sprintf_port 8080) m []))"
    by blast
  then have b: "Start port_in_use (fst (?run ?ops)) 8080 [] =
     (Some (LibraryError ''bind: address already in use''), [Sprintf_port 8080])"
    by (simp add: port_in_use_def)
  from inst [where ops = ?ops] 2 3
  have c: "registered_handler (fst (?run ?ops)) \<noteq> Map.empty"
    by blast
  from a b c show ?thesis by blast
qed

text \<open>
  With \<open>no resource has been registered\<close> in place of \<open>AddResource was never called\<close>
  the statement fails. \<open>AddResource\<close> with the empty path on a new API creates the route
  table and then panics in \<open>HandleFunc\<close>. A program that recovers from the panic has
  an API on which no resource is registered, and \<open>Start\<close> on it calls the transport
  and returns the transport's error, not the configuration error.
\<close>

theorem Start_after_refused_registration_counterexample:
  "fst (AddResource no_further_refusals example_Marshal NewAPI items []) =
     Some invalid_pattern
   \<and> registered_handler
       (snd (AddResource no_further_refusals example_Marshal NewAPI items [])) = Map.empty
   \<and> Start port_in_use
       (snd (AddResource no_further_refusals example_Marshal NewAPI items [])) 8080 [] =
     (Some (LibraryError ''bind: address already in use''), [Sprintf_port 8080])
   \<and> Start port_in_use
       (snd (AddResource no_further_refusals example_Marshal NewAPI items [])) 8080 [] \<noteq>
     (Some no_routes_error, [])"
  by (simp add: AddResource_def HandleFunc_def NewAPI_def NewServeMux_def
      registered_handler_def Start_def port_in_use_def no_routes_error_def fun_eq_iff)

subsection \<open>Registering twice at one path\<close>

text \<open>
  C6, as amended. The route table holds at most one handler for a path. When a
  resource has been registered at a path, a second call of \<open>AddResource\<close> at the same
  path does not return: \<open>HandleFunc\<close> panics, the API stays as the first registration
  left it, and the path stays bound to the first resource.
\<close>

theorem second_registration_panics:
  assumes "AddResource refuses Marshal api resource1 path = (None, api1)"
  shows "registered_handler api1 path = Some (requestHandler Marshal resource1)
       \<and> fst (AddResource refuses Marshal api1 resource2 path) \<noteq> None
       \<and> snd (AddResource refuses Marshal api1 resource2 path) = api1"
proof -
  have b: "registered_handler api1 path = Some (requestHandler Marshal resource1)"
    by (rule AddResource_binds [OF assms])
  then have r: "registered_handler api1 path \<noteq> None" by simp
  then have "fst (AddResource refuses Marshal api1 resource2 path) \<noteq> None"
    by (simp add: AddResource_ok_iff)
  with b AddResource_registered_unchanged [OF r] show ?thesis by simp
qed

theorem second_registration_panics_witness:
  "registered_handler \<lparr>mux = Some [''/items'' \<mapsto> requestHandler example_Marshal items]\<rparr>
     ''/items'' = Some (requestHandler example_Marshal items)
   \<and> fst (AddResource no_further_refusals example_Marshal
            \<lparr>mux = Some [''/items'' \<mapsto> requestHandler example_Marshal items]\<rparr>
            catalogue ''/items'') \<noteq> None
   \<and> snd (AddResource no_further_refusals example_Marshal
            \<lparr>mux = Some [''/items'' \<mapsto> requestHandler example_Marshal items]\<rparr>
            catalogue ''/items'') =
       \<lparr>mux = Some [''/items'' \<mapsto> requestHandler example_Marshal items]\<rparr>"
proof -
  have 1: "AddResource no_further_refusals example_Marshal NewAPI items ''/items'' =
           (None, \<lparr>mux = Some [''/items'' \<mapsto> requestHandler example_Marshal items]\<rparr>)"
    by (simp add: AddResource_example)
  show ?thesis by (rule second_registration_panics [OF 1])
qed

text \<open>
  The last registration does not win: after \<open>items\<close> and then \<open>catalogue\<close> at
  \<open>/items\<close>, the second call has panicked and the table still holds the handler of
  \<open>items\<close>, which answers a \<open>POST\<close> with 405 where \<open>catalogue\<close> would answer 201.
\<close>

theorem last_registration_wins_counterexample:
  "AddResource no_further_refusals example_Marshal NewAPI items ''/items'' =
     (None, \<lparr>mux = Some [''/items'' \<mapsto> requestHandler example_Marshal items]\<rparr>)
   \<and> AddResource no_further_refusals example_Marshal
       \<lparr>mux = Some [''/items'' \<mapsto> requestHandler example_Marshal items]\<rparr> catalogue ''/items'' =
     (Some (multiple_registrations ''/items''),
      \<lparr>mux = Some [''/items'' \<mapsto> requestHandler example_Marshal items]\<rparr>)
   \<and> response_status (fst (requestHandler example_Marshal items [] post_items 0)) = Some 405
   \<and> response_status (fst (requestHandler example_Marshal catalogue [] post_items 0)) =
       Some 201"
  by (simp add: AddResource_def HandleFunc_def NewAPI_def NewServeMux_def requestHandler_def
      items_def catalogue_def post_items_def example_Marshal_def WriteHeader_def Write_def
      GET_def POST_def PUT_def DELETE_def StatusMethodNotAllowed_def
      response_status_def response_of_def new_response_def response_WriteHeader_def
      response_Write_def bodyAllowedForStatus_def no_further_refusals_def)

subsection \<open>When AddResource returns\<close>

text \<open>
  C7, as amended. \<open>AddResource\<close> returns nothing and has no failure of its own, for any
  resource; it fails exactly when \<open>HandleFunc\<close> refuses the path. For the empty path
  and for a path already registered on the API \<open>HandleFunc\<close> panics, and so does
  \<open>AddResource\<close>. It returns normally exactly when the path is neither empty nor
  registered nor refused by the route table for another reason, and then the path is
  bound to the handler of the resource. When it panics the registered routes are as
  before.
\<close>

theorem AddResource_returns_iff_accepted:
  "(path = [] \<or> registered_handler api path \<noteq> None \<longrightarrow>
      fst (AddResource refuses Marshal api resource path) \<noteq> None)
   \<and> (fst (AddResource refuses Marshal api resource path) = None \<longleftrightarrow>
        path \<noteq> [] \<and> registered_handler api path = None
        \<and> \<not> refuses (dom (registered_handler api)) path)
   \<and> (fst (AddResource refuses Marshal api resource path) = None \<longrightarrow>
        registered_handler (snd (AddResource refuses Marshal api resource path)) path =
          Some (requestHandler Marshal resource))
   \<and> (fst (AddResource refuses Marshal api resource path) \<noteq> None \<longrightarrow>
        registered_handler (snd (AddResource refuses Marshal api resource path)) =
          registered_handler api)"
proof -
  have a: "path = [] \<or> registered_handler api path \<noteq> None \<longrightarrow>
      fst (AddResource refuses Marshal api resource path) \<noteq> None"
    by (auto simp: AddResource_ok_iff)
  have b: "fst (AddResource refuses Marshal api resource path) = None \<longrightarrow>
        registered_handler (snd (AddResource refuses Marshal api resource path)) path =
          Some (requestHandler Marshal resource)"
    by (simp add: AddResource_ok_routes)
  have c: "fst (AddResource refuses Marshal api resource path) \<noteq> None \<longrightarrow>
        registered_handler (snd (AddResource refuses Marshal api resource path)) =
          registered_handler api"
    using AddResource_panic_keeps [of refuses Marshal api resource path] by blast
  from a b c AddResource_ok_iff [of refuses Marshal api resource path]
  show ?thesis by blast
qed

theorem AddResource_returns_iff_accepted_witness:
  "fst (AddResource no_further_refusals example_Marshal NewAPI items ''/items'') = None
   \<and> registered_handler
       (snd (AddResource no_further_refusals example_Marshal NewAPI items ''/items''))
       ''/items'' = Some (requestHandler example_Marshal items)
   \<and> fst (AddResource no_further_refusals example_Marshal NewAPI items []) \<noteq> None
   \<and> registered_handler (snd (AddResource no_further_refusals example_Marshal NewAPI items []))
       = registered_handler NewAPI"
proof -
  note inst = AddResource_returns_iff_accepted
    [where refuses = no_further_refusals and Marshal = example_Marshal and api = NewAPI
       and resource = items]
  have 1: "''/items'' \<noteq> [] \<and> registered_handler (NewAPI :: nat API) ''/items'' = None
           \<and> \<not> no_further_refusals (dom (registered_handler (NewAPI :: nat API))) ''/items''"
    by (simp add: registered_handler_def NewAPI_def no_further_refusals_def)
  have 2: "([] :: string) = [] \<or> registered_handler (NewAPI :: nat API) [] \<noteq> None"
    by simp
  from inst [where path = "''/items''"] 1
  have a: "fst (AddResource no_further_refusals example_Marshal NewAPI items ''/items'') = None
     \<and> registered_handler
         (snd (AddResource no_further_refusals example_Marshal NewAPI items ''/items''))
         ''/items'' = Some (requestHandler example_Marshal items)"
    by blast
  from inst [where path = "[]"] 2
  have b: "fst (AddResource no_further_refusals example_Marshal NewAPI items []) \<noteq> None
     \<and> registered_handler (snd (AddResource no_further_refusals example_Marshal NewAPI items []))
         = registered_handler NewAPI"
    by blast
  from a b show ?thesis by blast
qed

text \<open>
  \<open>AddResource\<close> with the empty path on a new API panics; the route table has been
  created and holds no route.
\<close>

theorem AddResource_empty_path_counterexample:
  "AddResource no_further_refusals example_Marshal NewAPI items [] =
     (Some invalid_pattern, \<lparr>mux = Some Map.empty\<rparr>)"
  by (simp add: AddResource_def HandleFunc_def NewAPI_def NewServeMux_def)

subsection \<open>Determinism\<close>

text \<open>
  C8. Two requests with the same verb and the same parsed fields, handled by the same
  resource, whose method for that verb (if it has one) is pure, get the same response:
  the same calls on the writer, hence the same status and the same body, whatever the
  state at each of the two requests.
\<close>

theorem pure_requests_same_response:
  assumes "Method request1 = Method request2"
    and "ParseForm request1 = None" and "ParseForm request2 = None"
    and "Form request1 = Form request2"
    and "\<forall>c h. Method request1 = verb c \<and> method_of resource c = Some h \<longrightarrow> pure_handler h"
  shows "fst (requestHandler Marshal resource rw request1 s1) =
         fst (requestHandler Marshal resource rw request2 s2)"
proof (cases "\<exists>c h. Method request1 = verb c \<and> method_of resource c = Some h")
  case True
  then obtain c h where c: "Method request1 = verb c" "method_of resource c = Some h"
    by blast
  with assms(5) have p: "pure_handler h" by blast
  define code where "code = fst (fst (h (Form request1) s1))"
  define data where "data = snd (fst (h (Form request1) s1))"
  have h1: "h (Form request1) s1 = ((code, data), snd (h (Form request1) s1))"
    by (simp add: code_def data_def)
  from p have "fst (h (Form request1) s2) = fst (h (Form request1) s1)"
    unfolding pure_handler_def by blast
  then have h2: "h (Form request2) s2 = ((code, data), snd (h (Form request2) s2))"
    by (simp add: code_def data_def assms(4) [symmetric] prod_eq_iff)
  have m: "Marshal data = (fst (Marshal data), snd (Marshal data))"
    by simp
  from c(1) assms(1) have c2: "Method request2 = verb c" by simp
  show ?thesis
    using requestHandler_invoke [where h = h and Marshal = Marshal, OF assms(2) c(1) c(2) h1 m]
      requestHandler_invoke [where h = h and Marshal = Marshal, OF assms(3) c2 c(2) h2 m]
    by simp
next
  case False
  have na: "Method request1 \<notin> {GET, POST, PUT, DELETE} \<or>
            (\<exists>c. Method request1 = verb c \<and> method_of resource c = None)"
  proof (cases "Method request1 \<in> {GET, POST, PUT, DELETE}")
    case True
    then obtain c where "Method request1 = verb c"
      using verb_exists by blast
    with False show ?thesis by (cases "method_of resource c") auto
  next
    case False
    then show ?thesis by simp
  qed
  then have na2: "Method request2 \<notin> {GET, POST, PUT, DELETE} \<or>
                  (\<exists>c. Method request2 = verb c \<and> method_of resource c = None)"
    by (simp only: assms(1))
  have "requestHandler Marshal resource rw request1 s1 =
        (rw @ [WriteHeaderCall StatusMethodNotAllowed], s1)"
    by (rule requestHandler_not_allowed [OF assms(2) na])
  moreover have "requestHandler Marshal resource rw request2 s2 =
        (rw @ [WriteHeaderCall StatusMethodNotAllowed], s2)"
    by (rule requestHandler_not_allowed [OF assms(3) na2])
  ultimately show ?thesis by simp
qed

theorem pure_requests_same_response_witness:
  "fst (requestHandler example_Marshal catalogue [] get_items 0) =
   fst (requestHandler example_Marshal catalogue [] get_items 5)"
proof -
  have 1: "ParseForm get_items = None"
    by (simp add: get_items_def)
  have 2: "\<forall>c h. Method get_items = verb c \<and> method_of catalogue c = Some h \<longrightarrow> pure_handler h"
  proof (intro allI impI)
    fix c h
    assume "Method get_items = verb c \<and> method_of catalogue c = Some h"
    then show "pure_handler h"
      by (cases c) (auto simp: catalogue_def pure_handler_def)
  qed
  show ?thesis
    by (rule pure_requests_same_response [OF refl 1 1 refl 2])
qed

subsection \<open>Order of the checks\<close>

text \<open>
  C9. The form is parsed before the verb and the capabilities are looked at. A request
  whose form does not parse is answered with 400, not with 405, whatever its verb and
  whatever the resource implements: the outcome is the same for every other resource
  and every other verb.
\<close>

theorem bad_request_precedes_method_not_allowed:
  assumes "ParseForm request \<noteq> None"
  shows "response_status (fst (requestHandler Marshal resource [] request s)) =
           Some StatusBadRequest
       \<and> response_status (fst (requestHandler Marshal resource [] request s)) \<noteq>
           Some StatusMethodNotAllowed
       \<and> requestHandler Marshal resource rw request s =
           requestHandler Marshal resource' rw (request\<lparr>Method := v\<rparr>) s"
  using assms
  by (simp add: requestHandler_parse_error response_bad_request)
    (simp add: StatusBadRequest_def StatusMethodNotAllowed_def)

theorem bad_request_precedes_method_not_allowed_witness:
  "response_status (fst (requestHandler example_Marshal items [] patch_malformed 0)) = Some 400
   \<and> response_status (fst (requestHandler example_Marshal items [] patch_malformed 0)) \<noteq>
       Some 405
   \<and> requestHandler example_Marshal items [] patch_malformed 0 =
       requestHandler example_Marshal catalogue [] (patch_malformed\<lparr>Method := ''GET''\<rparr>) 0"
proof -
  have 1: "ParseForm patch_malformed \<noteq> None"
    by (simp add: patch_malformed_def)
  from bad_request_precedes_method_not_allowed
    [OF 1, of example_Marshal items 0 "[]" catalogue "''GET''"]
  show ?thesis
    unfolding StatusBadRequest_def StatusMethodNotAllowed_def .
qed

subsection \<open>The route table, once created\<close>

text \<open>
  C10. After a call of \<open>AddResource\<close> on an API, in whatever state the API was and
  whether or not the call panicked, the route table exists, and it exists after any
  further calls of \<open>AddResource\<close> and \<open>Start\<close>; so \<open>Start\<close> does not return the
  configuration error.
\<close>

theorem mux_stays_after_AddResource:
  assumes "run refuses Marshal Serve (snd (AddResource refuses Marshal api resource path), net) ops =
           (api', net')"
  shows "mux api' \<noteq> None
       \<and> fst (Start ListenAndServe api' port net'') \<noteq> Some no_routes_error"
proof -
  have "mux (fst (run refuses Marshal Serve (snd (AddResource refuses Marshal api resource path), net) ops))
        \<noteq> None"
    by (simp add: run_mux AddResource_mux)
  with assms have m: "mux api' \<noteq> None" by simp
  then obtain m' where m': "mux api' = Some m'" by blast
  from m show ?thesis
    by (simp add: Start_mux [OF m'] no_routes_error_def)
qed

theorem mux_stays_after_AddResource_witness:
  "mux (fst (run no_further_refusals example_Marshal port_in_use
        (snd (AddResource no_further_refusals example_Marshal NewAPI items []), [])
        [CallStart 8080, CallAddResource catalogue ''/catalogue''])) \<noteq> None
   \<and> fst (Start port_in_use (fst (run no_further_refusals example_Marshal port_in_use
        (snd (AddResource no_further_refusals example_Marshal NewAPI items []), [])
        [CallStart 8080, CallAddResource catalogue ''/catalogue''])) 8080 []) \<noteq>
       Some no_routes_error"
  by (rule mux_stays_after_AddResource [OF surjective_pairing])

end
